theory Spec2Isabelle
  imports
    Complex_Main
    "HOL-Library.Multiset"
    "HOL-Library.AList"
    "HOL-Library.Char_ord"
    "HOL-Library.List_Lexorder"
    "HOL-Library.Option_ord"
    "HOL-Library.Product_Lexorder"
begin

section \<open>The store of \<^verbatim>\<open>data.py\<close>\<close>

text \<open>
  \<^verbatim>\<open>data.py\<close> keeps three SQLite tables. A table is modelled as the list of its rows in
  rowid order, which is the order of insertion and the order in which a full table scan
  visits the rows. A column that may hold NULL is an \<open>option\<close>; Python's \<open>None\<close> is
  \<open>None\<close>. Text is a byte string, a REAL value is a real number (the rounding of floating
  point is not modelled).
\<close>

record session =
  s_id :: string
  s_name :: string
  s_interviewer :: "string option"
  s_date :: "string option"
  s_notes :: "string option"

record candidate =
  c_id :: string
  c_session_id :: "string option"
  c_name :: "string option"
  c_email :: "string option"
  c_phone :: "string option"
  c_position :: "string option"
  c_experience_years :: "int option"
  c_notes :: "string option"

record score =
  sc_id :: int
  sc_candidate_id :: "string option"
  sc_metric :: string
  sc_value :: real

text \<open>
  \<open>scores_seq\<close> is the entry of table \<^verbatim>\<open>scores\<close> in \<^verbatim>\<open>sqlite_sequence\<close>: the largest rowid
  that AUTOINCREMENT has handed out so far.
\<close>

record db =
  sessions :: "session list"
  candidates :: "candidate list"
  scores :: "score list"
  scores_seq :: int

text \<open>
  Two failures of a statement are modelled: the violation of a constraint
  (\<^verbatim>\<open>sqlite3.IntegrityError\<close>), and an integer argument that does not fit the 64-bit signed
  INTEGER of SQLite (\<^verbatim>\<open>OverflowError\<close>, raised while the arguments are bound, before the
  statement runs). \<^verbatim>\<open>data.py\<close> catches nothing, so the exception reaches the caller: the
  function returns \<open>Inl\<close>.
\<close>

datatype error = IntegrityError | OverflowError

definition fits_int64 :: "int \<Rightarrow> bool" where
  "fits_int64 n = (- (2 ^ 63) \<le> n \<and> n < 2 ^ 63)"

text \<open>
  \<^verbatim>\<open>get_conn\<close> opens the connection with \<^verbatim>\<open>sqlite3.connect\<close> and sets the row factory, nothing
  else. It never runs \<^verbatim>\<open>PRAGMA foreign_keys = ON\<close>, and SQLite leaves the enforcement of
  foreign keys off on a new connection: the \<^verbatim>\<open>FOREIGN KEY\<close> clauses of the schema are
  parsed and stored but not checked.
\<close>

record conn =
  foreign_keys :: bool

definition get_conn :: conn where
  "get_conn = \<lparr>foreign_keys = False\<rparr>"

text \<open>\<^verbatim>\<open>init_db\<close> on a new database file: three empty tables.\<close>

definition init_db :: db where
  "init_db = \<lparr>sessions = [], candidates = [], scores = [], scores_seq = 0\<rparr>"

text \<open>The comparison \<^verbatim>\<open>column = ?\<close> of SQL: it is not true when either side is NULL.\<close>

definition sql_eq :: "'a option \<Rightarrow> 'a option \<Rightarrow> bool" where
  "sql_eq a b = (case a of None \<Rightarrow> False | Some x \<Rightarrow> (case b of None \<Rightarrow> False | Some y \<Rightarrow> x = y))"

subsection \<open>Sessions\<close>

text \<open>
  \<^verbatim>\<open>INSERT INTO sessions (id, name, interviewer, date, notes) VALUES (?, ?, ?, ?, ?)\<close>.
  The schema has \<^verbatim>\<open>id TEXT PRIMARY KEY\<close> and \<^verbatim>\<open>name TEXT NOT NULL\<close>.
\<close>

definition insert_session ::
  "conn \<Rightarrow> db \<Rightarrow> string \<Rightarrow> string option \<Rightarrow> string option \<Rightarrow> string option \<Rightarrow> string option
    \<Rightarrow> error + db" where
  "insert_session cn d sid name interviewer date notes =
     (case name of
        None \<Rightarrow> Inl IntegrityError
      | Some n \<Rightarrow>
          if sid \<in> set (map s_id (sessions d)) then Inl IntegrityError
          else Inr (d\<lparr>sessions := sessions d @
                  [\<lparr>s_id = sid, s_name = n, s_interviewer = interviewer,
                    s_date = date, s_notes = notes\<rparr>]\<rparr>))"

text \<open>
  \<^verbatim>\<open>create_session\<close>. The argument \<open>sid\<close> is the value that \<^verbatim>\<open>str(uuid.uuid4())\<close> draws in
  the first line of the function; the function returns it.
\<close>

definition create_session ::
  "db \<Rightarrow> string \<Rightarrow> string option \<Rightarrow> string option \<Rightarrow> string option \<Rightarrow> string option
    \<Rightarrow> error + (db \<times> string)" where
  "create_session d sid name interviewer date notes =
     (case insert_session get_conn d sid name interviewer date notes of
        Inl e \<Rightarrow> Inl e
      | Inr d' \<Rightarrow> Inr (d', sid))"

text \<open>
  A stable insertion sort into descending order of a key. \<^verbatim>\<open>ORDER BY date DESC\<close> leaves
  the order of rows with equal dates open; the model keeps them in table order.
\<close>

fun insert_desc :: "('a \<Rightarrow> 'k::linorder) \<Rightarrow> 'a \<Rightarrow> 'a list \<Rightarrow> 'a list" where
  "insert_desc f x [] = [x]"
| "insert_desc f x (y # ys) = (if f y \<le> f x then x # y # ys else y # insert_desc f x ys)"

fun sort_desc :: "('a \<Rightarrow> 'k::linorder) \<Rightarrow> 'a list \<Rightarrow> 'a list" where
  "sort_desc f [] = []"
| "sort_desc f (x # xs) = insert_desc f x (sort_desc f xs)"

text \<open>
  \<^verbatim>\<open>SELECT * FROM sessions ORDER BY date DESC\<close>, every row fetched. Dates are text and
  compare bytewise; NULL sorts below every text, so last in descending order.
\<close>

definition list_sessions :: "db \<Rightarrow> session list" where
  "list_sessions d = sort_desc s_date (sessions d)"

subsection \<open>Candidates\<close>

text \<open>
  \<^verbatim>\<open>INSERT INTO candidates (...) VALUES (...)\<close>. The schema has \<^verbatim>\<open>id TEXT PRIMARY KEY\<close> and
  \<^verbatim>\<open>FOREIGN KEY(session_id) REFERENCES sessions(id) ON DELETE CASCADE\<close>; the foreign key
  is checked only on a connection that enforces foreign keys. \<^verbatim>\<open>experience_years\<close> is the
  one integer among the arguments.
\<close>

definition insert_candidate ::
  "conn \<Rightarrow> db \<Rightarrow> string \<Rightarrow> string option \<Rightarrow> string option \<Rightarrow> string option \<Rightarrow> string option
    \<Rightarrow> string option \<Rightarrow> int option \<Rightarrow> string option \<Rightarrow> error + db" where
  "insert_candidate cn d cid session_id name email phone position experience_years notes =
     (if (case experience_years of None \<Rightarrow> False | Some n \<Rightarrow> \<not> fits_int64 n)
      then Inl OverflowError
      else if cid \<in> set (map c_id (candidates d)) then Inl IntegrityError
      else if foreign_keys cn \<and>
              (case session_id of None \<Rightarrow> False
               | Some s \<Rightarrow> s \<notin> set (map s_id (sessions d)))
      then Inl IntegrityError
      else Inr (d\<lparr>candidates := candidates d @
              [\<lparr>c_id = cid, c_session_id = session_id, c_name = name, c_email = email,
                c_phone = phone, c_position = position,
                c_experience_years = experience_years, c_notes = notes\<rparr>]\<rparr>))"

text \<open>\<^verbatim>\<open>add_candidate\<close>; \<open>cid\<close> is the value drawn by \<^verbatim>\<open>str(uuid.uuid4())\<close>.\<close>

definition add_candidate ::
  "db \<Rightarrow> string \<Rightarrow> string option \<Rightarrow> string option \<Rightarrow> string option \<Rightarrow> string option
    \<Rightarrow> string option \<Rightarrow> int option \<Rightarrow> string option \<Rightarrow> error + (db \<times> string)" where
  "add_candidate d cid session_id name email phone position experience_years notes =
     (case insert_candidate get_conn d cid session_id name email phone position
             experience_years notes of
        Inl e \<Rightarrow> Inl e
      | Inr d' \<Rightarrow> Inr (d', cid))"

text \<open>\<^verbatim>\<open>SELECT * FROM candidates WHERE session_id = ?\<close>\<close>

definition list_candidates :: "db \<Rightarrow> string option \<Rightarrow> candidate list" where
  "list_candidates d session_id =
     filter (\<lambda>c. sql_eq (c_session_id c) session_id) (candidates d)"

text \<open>\<^verbatim>\<open>UPDATE candidates SET notes = ? WHERE id = ?\<close>\<close>

definition update_candidate_notes :: "db \<Rightarrow> string option \<Rightarrow> string option \<Rightarrow> db" where
  "update_candidate_notes d candidate_id notes =
     d\<lparr>candidates :=
         map (\<lambda>c. if sql_eq (Some (c_id c)) candidate_id then c\<lparr>c_notes := notes\<rparr> else c)
           (candidates d)\<rparr>"

text \<open>\<^verbatim>\<open>get_candidate_by_id\<close>: the first row of \<^verbatim>\<open>SELECT * FROM candidates WHERE id = ?\<close>\<close>

definition get_candidate_by_id :: "db \<Rightarrow> string option \<Rightarrow> candidate option" where
  "get_candidate_by_id d candidate_id =
     (case filter (\<lambda>c. sql_eq (Some (c_id c)) candidate_id) (candidates d) of
        [] \<Rightarrow> None
      | row # _ \<Rightarrow> Some row)"

subsection \<open>Scores\<close>

text \<open>
  \<^verbatim>\<open>INSERT INTO scores (candidate_id, metric, value) VALUES (?, ?, ?)\<close>. The schema has
  \<^verbatim>\<open>metric TEXT NOT NULL\<close>, \<^verbatim>\<open>value REAL NOT NULL\<close>, an AUTOINCREMENT key and the foreign
  key on \<^verbatim>\<open>candidate_id\<close>. There is no uniqueness constraint on the metric.
\<close>

definition insert_score ::
  "conn \<Rightarrow> db \<Rightarrow> string option \<Rightarrow> string option \<Rightarrow> real option \<Rightarrow> error + db" where
  "insert_score cn d candidate_id metric val =
     (case metric of
        None \<Rightarrow> Inl IntegrityError
      | Some m \<Rightarrow>
          (case val of
             None \<Rightarrow> Inl IntegrityError
           | Some v \<Rightarrow>
               if foreign_keys cn \<and>
                  (case candidate_id of None \<Rightarrow> False
                   | Some c \<Rightarrow> c \<notin> set (map c_id (candidates d)))
               then Inl IntegrityError
               else Inr (d\<lparr>scores := scores d @
                       [\<lparr>sc_id = scores_seq d + 1, sc_candidate_id = candidate_id,
                         sc_metric = m, sc_value = v\<rparr>],
                     scores_seq := scores_seq d + 1\<rparr>)))"

definition add_score :: "db \<Rightarrow> string option \<Rightarrow> string option \<Rightarrow> real option \<Rightarrow> error + db" where
  "add_score d candidate_id metric val = insert_score get_conn d candidate_id metric val"

text \<open>
  \<^verbatim>\<open>SELECT metric, value FROM scores WHERE candidate_id = ?\<close>; each row becomes the
  dictionary \<^verbatim>\<open>{metric, value}\<close>, here a pair.
\<close>

definition get_scores_for_candidate :: "db \<Rightarrow> string option \<Rightarrow> (string \<times> real) list" where
  "get_scores_for_candidate d candidate_id =
     map (\<lambda>s. (sc_metric s, sc_value s))
       (filter (\<lambda>s. sql_eq (sc_candidate_id s) candidate_id) (scores d))"

text \<open>\<^verbatim>\<open>DELETE FROM scores WHERE candidate_id = ?\<close>\<close>

definition delete_candidate_scores :: "db \<Rightarrow> string option \<Rightarrow> db" where
  "delete_candidate_scores d candidate_id =
     d\<lparr>scores := filter (\<lambda>s. \<not> sql_eq (sc_candidate_id s) candidate_id) (scores d)\<rparr>"

text \<open>
  The loop \<^verbatim>\<open>for metric, val in vals.items(): data.add_score(candidate_id, metric, float(val))\<close>
  of \<^verbatim>\<open>_score_candidate\<close>: the first failing insert ends it.
\<close>

fun add_scores :: "db \<Rightarrow> string \<Rightarrow> (string \<times> real) list \<Rightarrow> error + db" where
  "add_scores d candidate_id [] = Inr d"
| "add_scores d candidate_id ((metric, val) # rest) =
     (case add_score d (Some candidate_id) (Some metric) (Some val) of
        Inl e \<Rightarrow> Inl e
      | Inr d' \<Rightarrow> add_scores d' candidate_id rest)"

subsection \<open>Deleting a session\<close>

text \<open>
  Modelled from the spec: a function that deletes a session; \<^verbatim>\<open>data.py\<close> has none. The
  spec says that deleting a session removes all candidates with that \<^verbatim>\<open>session_id\<close> and
  transitively all their scores, the cascade being enforced by the store. The model is
  the statement \<^verbatim>\<open>DELETE FROM sessions WHERE id = ?\<close> together with the two
  \<^verbatim>\<open>ON DELETE CASCADE\<close> actions that the schema of \<^verbatim>\<open>init_db\<close> declares: a candidate goes
  with the session its \<^verbatim>\<open>session_id\<close> refers to, a score goes with the candidate its
  \<^verbatim>\<open>candidate_id\<close> refers to. The actions are taken as carried out, as the spec says; the
  statements of \<^verbatim>\<open>data.py\<close> above are modelled on the connection of \<^verbatim>\<open>get_conn\<close>, which does
  not check foreign keys.
\<close>

definition delete_session :: "db \<Rightarrow> string option \<Rightarrow> db" where
  "delete_session d session_id =
     (let gone = filter (\<lambda>s. sql_eq (Some (s_id s)) session_id) (sessions d);
          dead = filter (\<lambda>c. c_session_id c \<in> set (map (\<lambda>s. Some (s_id s)) gone))
                   (candidates d)
      in d\<lparr>sessions := filter (\<lambda>s. \<not> sql_eq (Some (s_id s)) session_id) (sessions d),
           candidates :=
             filter (\<lambda>c. c_session_id c \<notin> set (map (\<lambda>s. Some (s_id s)) gone)) (candidates d),
           scores :=
             filter (\<lambda>s. sc_candidate_id s \<notin> set (map (\<lambda>c. Some (c_id c)) dead)) (scores d)\<rparr>)"

subsection \<open>The aggregate query\<close>

text \<open>
  \<^verbatim>\<open>get_aggregate_scores\<close>:
  \<^verbatim>\<open>SELECT c.id as candidate_id, c.name, s.metric, AVG(s.value) as avg_value
  FROM candidates c LEFT JOIN scores s ON c.id = s.candidate_id
  WHERE c.session_id = ? GROUP BY c.id, s.metric\<close>

  The left join pairs a candidate with each of its score rows, or with one all-NULL
  score row when it has none.
\<close>

definition left_join :: "db \<Rightarrow> string option \<Rightarrow> (candidate \<times> score option) list" where
  "left_join d session_id =
     concat (map
       (\<lambda>c. let ss = filter (\<lambda>s. sql_eq (Some (c_id c)) (sc_candidate_id s)) (scores d)
            in if ss = [] then [(c, None)] else map (\<lambda>s. (c, Some s)) ss)
       (filter (\<lambda>c. sql_eq (c_session_id c) session_id) (candidates d)))"

text \<open>The grouping key \<^verbatim>\<open>c.id, s.metric\<close>; GROUP BY puts the NULLs into one group.\<close>

definition group_key :: "candidate \<times> score option \<Rightarrow> string \<times> string option" where
  "group_key r = (c_id (fst r), map_option sc_metric (snd r))"

text \<open>\<^verbatim>\<open>AVG\<close>: the mean of the values that are not NULL, and NULL when there is none.\<close>

definition sql_avg :: "real option list \<Rightarrow> real option" where
  "sql_avg xs =
     (let vs = List.map_filter id xs
      in if vs = [] then None else Some (sum_list vs / real (length vs)))"

record agg_row =
  a_candidate_id :: string
  a_name :: "string option"
  a_metric :: "string option"
  a_avg_value :: "real option"

text \<open>
  One output row per group. \<^verbatim>\<open>c.name\<close> is a bare column: SQLite reads it from one row of
  the group (here the first); all rows of a group have the same \<^verbatim>\<open>c.id\<close>.
\<close>

definition aggregate_group ::
  "string \<times> string option \<Rightarrow> (candidate \<times> score option) list \<Rightarrow> agg_row" where
  "aggregate_group k g =
     \<lparr>a_candidate_id = fst k,
      a_name = (case g of [] \<Rightarrow> None | r # _ \<Rightarrow> c_name (fst r)),
      a_metric = snd k,
      a_avg_value = sql_avg (map (\<lambda>r. map_option sc_value (snd r)) g)\<rparr>"

text \<open>
  SQL leaves the order of the groups open; SQLite emits them in the order of the key,
  which is what the model does. The properties below do not depend on the order.
\<close>

definition get_aggregate_scores :: "db \<Rightarrow> string option \<Rightarrow> agg_row list" where
  "get_aggregate_scores d session_id =
     (let rows = left_join d session_id
      in map (\<lambda>k. aggregate_group k (filter (\<lambda>r. group_key r = k) rows))
           (sort (remdups (map group_key rows))))"

section \<open>The interview tab of \<^verbatim>\<open>tab_interview.py\<close>\<close>

definition METRICS :: "string list" where
  "METRICS = [''Communication'', ''Technical Skills'', ''Projects'', ''Problem Solving'',
     ''Culture Fit'']"

subsection \<open>The session form\<close>

text \<open>
  What Streamlit shows after the form is submitted (the texts without their emoji and
  markup).
\<close>

datatype notice = St_error string | St_success string

text \<open>
  The \<^verbatim>\<open>if submitted:\<close> branch of \<^verbatim>\<open>show_session_management\<close>. \<^verbatim>\<open>if not name\<close> is the test
  for the empty string; \<^verbatim>\<open>interviewer or None\<close> turns the empty string into \<open>None\<close>.
\<close>

definition submit_create_session ::
  "db \<Rightarrow> string \<Rightarrow> string \<Rightarrow> string \<Rightarrow> string \<Rightarrow> string \<Rightarrow> error + (db \<times> notice)" where
  "submit_create_session d sid name interviewer session_date notes =
     (if name = [] then Inr (d, St_error ''Please enter a session name'')
      else
        (case create_session d sid (Some name)
                (if interviewer = [] then None else Some interviewer)
                (Some session_date)
                (if notes = [] then None else Some notes) of
           Inl e \<Rightarrow> Inl e
         | Inr (d', _) \<Rightarrow> Inr (d', St_success (''Created session: '' @ name))))"

subsection \<open>The average in the candidate list\<close>

datatype widget = St_metric string real | St_info string

text \<open>
  Column 2 of a candidate in \<^verbatim>\<open>show_candidate_evaluation\<close>, given the result of
  \<^verbatim>\<open>get_scores_for_candidate\<close>. The dictionary \<^verbatim>\<open>score_dict\<close> keeps one entry per metric
  name, the last value winning. The number is shown with two decimals; the model keeps
  the number.
\<close>

definition score_dict :: "(string \<times> real) list \<Rightarrow> (string \<times> real) list" where
  "score_dict scs = fold (\<lambda>s dict. AList.update (fst s) (snd s) dict) scs []"

definition show_average :: "(string \<times> real) list \<Rightarrow> widget" where
  "show_average scs =
     (if scs \<noteq> [] then
        (let dict = score_dict scs;
             avg_score = (if dict \<noteq> [] then sum_list (map snd dict) / real (length dict)
                          else 0)
         in St_metric ''Average Score'' avg_score)
      else St_info ''Not evaluated'')"

subsection \<open>Saving the scoring form\<close>

text \<open>
  The \<^verbatim>\<open>if sub:\<close> branch of \<^verbatim>\<open>_score_candidate\<close>. \<open>slider\<close> gives the position of the slider
  of each metric; \<^verbatim>\<open>vals\<close> is filled in the loop over \<^verbatim>\<open>METRICS\<close>.
\<close>

definition form_vals :: "(string \<Rightarrow> real) \<Rightarrow> (string \<times> real) list" where
  "form_vals slider = fold (\<lambda>m vals. AList.update m (slider m) vals) METRICS []"

definition save_scores :: "db \<Rightarrow> string \<Rightarrow> (string \<Rightarrow> real) \<Rightarrow> string \<Rightarrow> error + db" where
  "save_scores d candidate_id slider note =
     (let d1 = delete_candidate_scores d (Some candidate_id)
      in case add_scores d1 candidate_id (form_vals slider) of
           Inl e \<Rightarrow> Inl e
         | Inr d2 \<Rightarrow>
             Inr (if note \<noteq> [] then update_candidate_notes d2 (Some candidate_id) (Some note)
                  else d2))"

subsection \<open>Quick analytics\<close>

text \<open>
  A row of \<^verbatim>\<open>all_data\<close> is a dictionary from column names to cells: the candidate's name
  under \<^verbatim>\<open>'Candidate'\<close>, one number per metric, and the mean of all score values under
  \<^verbatim>\<open>'Average'\<close>, assigned last.
\<close>

datatype cell = Text "string option" | Num real

type_synonym row = "(string \<times> cell) list"

definition analytics_row :: "candidate \<Rightarrow> (string \<times> real) list \<Rightarrow> row" where
  "analytics_row cand scs =
     AList.update ''Average'' (Num (sum_list (map snd scs) / real (length scs)))
       (fold (\<lambda>s r. AList.update (fst s) (Num (snd s)) r) scs
          [(''Candidate'', Text (c_name cand))])"

text \<open>The loop over the candidates: a candidate without scores adds no row.\<close>

definition all_data :: "db \<Rightarrow> candidate list \<Rightarrow> row list" where
  "all_data d cands =
     concat (map
       (\<lambda>cand. let scs = get_scores_for_candidate d (Some (c_id cand))
               in if scs \<noteq> [] then [analytics_row cand scs] else [])
       cands)"

text \<open>The number in a column of a row, if there is one.\<close>

definition number_at :: "string \<Rightarrow> row \<Rightarrow> real option" where
  "number_at col r = (case map_of r col of Some (Num a) \<Rightarrow> Some a | _ \<Rightarrow> None)"

text \<open>
  \<^verbatim>\<open>DataFrame.nlargest(n, col)\<close> of pandas with its default \<^verbatim>\<open>keep='first'\<close>: the \<open>n\<close> rows with
  the largest values in the column, largest first, where of several rows with the same
  value the one that occurs first in the frame is taken first. It is modelled as \<open>n\<close>
  rounds of selecting the first row that holds the maximum. Rows without a number in the
  column are left out, as pandas leaves out NaN.
\<close>

fun first_max :: "('a \<Rightarrow> 'k::linorder) \<Rightarrow> 'a \<Rightarrow> 'a list \<Rightarrow> 'a" where
  "first_max f x [] = x"
| "first_max f x (y # ys) = (let m = first_max f y ys in if f m \<le> f x then x else m)"

fun nlargest_by :: "nat \<Rightarrow> ('a \<Rightarrow> 'k::linorder) \<Rightarrow> 'a list \<Rightarrow> 'a list" where
  "nlargest_by 0 f xs = []"
| "nlargest_by (Suc n) f [] = []"
| "nlargest_by (Suc n) f (x # xs) =
     (let m = first_max f x xs in m # nlargest_by n f (remove1 m (x # xs)))"

definition nlargest :: "nat \<Rightarrow> string \<Rightarrow> row list \<Rightarrow> row list" where
  "nlargest n col df =
     nlargest_by n (number_at col) (filter (\<lambda>r. number_at col r \<noteq> None) df)"

text \<open>\<^verbatim>\<open>df.nlargest(3, 'Average')[['Candidate', 'Average']]\<close>\<close>

definition top_avg :: "row list \<Rightarrow> (cell option \<times> cell option) list" where
  "top_avg df = map (\<lambda>r. (map_of r ''Candidate'', map_of r ''Average'')) (nlargest 3 ''Average'' df)"

text \<open>
  The reading of the spec: sort by the average in descending order with a stable sort,
  then take the first \<open>n\<close>.
\<close>

definition sorted_head :: "nat \<Rightarrow> string \<Rightarrow> row list \<Rightarrow> row list" where
  "sorted_head n col df =
     take n (sort_desc (number_at col) (filter (\<lambda>r. number_at col r \<noteq> None) df))"

section \<open>A small store\<close>

text \<open>
  One session with two candidates: Jane has the scores \<open>A = 3\<close> and \<open>B = 7\<close>, Sam has
  none.
\<close>

definition jane :: candidate where
  "jane = \<lparr>c_id = ''c1'', c_session_id = Some ''s1'', c_name = Some ''Jane'', c_email = None,
     c_phone = None, c_position = None, c_experience_years = Some 3, c_notes = None\<rparr>"

definition sam :: candidate where
  "sam = \<lparr>c_id = ''c2'', c_session_id = Some ''s1'', c_name = Some ''Sam'', c_email = None,
     c_phone = None, c_position = None, c_experience_years = None, c_notes = None\<rparr>"

definition round_one :: session where
  "round_one = \<lparr>s_id = ''s1'', s_name = ''S1'', s_interviewer = None,
     s_date = Some ''2024-05-01'', s_notes = None\<rparr>"

definition example_db :: db where
  "example_db =
     \<lparr>sessions = [round_one],
      candidates = [jane, sam],
      scores =
        [\<lparr>sc_id = 1, sc_candidate_id = Some ''c1'', sc_metric = ''A'', sc_value = 3\<rparr>,
         \<lparr>sc_id = 2, sc_candidate_id = Some ''c1'', sc_metric = ''B'', sc_value = 7\<rparr>],
      scores_seq = 2\<rparr>"

text \<open>
  The small store after \<^verbatim>\<open>add_score\<close> has been called twice for Sam with the same metric:
  \<open>A = 3\<close>, then \<open>A = 9\<close>.
\<close>

definition duplicate_db :: db where
  "duplicate_db =
     example_db\<lparr>scores := scores example_db @
        [\<lparr>sc_id = 3, sc_candidate_id = Some ''c2'', sc_metric = ''A'', sc_value = 3\<rparr>,
         \<lparr>sc_id = 4, sc_candidate_id = Some ''c2'', sc_metric = ''A'', sc_value = 9\<rparr>],
       scores_seq := 4\<rparr>"

text \<open>Four sessions, one without a date and two on the same day.\<close>

definition session_on :: "string \<Rightarrow> string option \<Rightarrow> session" where
  "session_on sid date =
     \<lparr>s_id = sid, s_name = ''Round'', s_interviewer = None, s_date = date, s_notes = None\<rparr>"

definition sessions_db :: db where
  "sessions_db =
     init_db\<lparr>sessions :=
       [session_on ''s1'' (Some ''2024-05-01''), session_on ''s2'' None,
        session_on ''s3'' (Some ''2024-06-15''), session_on ''s4'' (Some ''2024-05-01'')]\<rparr>"

text \<open>
  The small store with a second session, which has the candidate Lee with the score
  \<open>A = 10\<close>.
\<close>

definition lee :: candidate where
  "lee = \<lparr>c_id = ''c3'', c_session_id = Some ''s2'', c_name = Some ''Lee'', c_email = None,
     c_phone = None, c_position = None, c_experience_years = None, c_notes = None\<rparr>"

definition two_sessions_db :: db where
  "two_sessions_db =
     example_db\<lparr>sessions := sessions example_db @ [session_on ''s2'' None],
       candidates := [jane, sam, lee],
       scores := scores example_db @
         [\<lparr>sc_id = 3, sc_candidate_id = Some ''c3'', sc_metric = ''A'', sc_value = 10\<rparr>],
       scores_seq := 3\<rparr>"

text \<open>Three rows of a frame of averages, two of them with the same average.\<close>

definition alice :: row where
  "alice = [(''Candidate'', Text (Some ''Alice'')), (''Average'', Num 9)]"

definition bob :: row where
  "bob = [(''Candidate'', Text (Some ''Bob'')), (''Average'', Num 9)]"

definition carol :: row where
  "carol = [(''Candidate'', Text (Some ''Carol'')), (''Average'', Num 5)]"

section \<open>Properties of the store\<close>

lemma sql_eq_Some [simp]: "sql_eq (Some x) (Some y) = (x = y)"
  by (simp add: sql_eq_def)

lemma sql_eq_None [simp]: "sql_eq None b = False" "sql_eq a None = False"
  by (simp_all add: sql_eq_def split: option.splits)

lemma add_score_Some:
  "add_score d c (Some m) (Some v) =
     Inr (d\<lparr>scores := scores d @
            [\<lparr>sc_id = scores_seq d + 1, sc_candidate_id = c, sc_metric = m, sc_value = v\<rparr>],
          scores_seq := scores_seq d + 1\<rparr>)"
  by (simp add: add_score_def insert_score_def get_conn_def)

lemma get_scores_add_score:
  "add_score d (Some c) (Some m) (Some v) = Inr d' \<Longrightarrow>
   get_scores_for_candidate d' (Some c) = get_scores_for_candidate d (Some c) @ [(m, v)]"
  by (auto simp: add_score_Some get_scores_for_candidate_def)

lemma add_scores_total:
  "\<exists>d'. add_scores d c new = Inr d' \<and>
     get_scores_for_candidate d' (Some c) = get_scores_for_candidate d (Some c) @ new"
proof (induction new arbitrary: d)
  case Nil
  show ?case by simp
next
  case (Cons p rest)
  obtain m v where p: "p = (m, v)" by (cases p)
  obtain d1 where d1: "add_score d (Some c) (Some m) (Some v) = Inr d1"
    by (simp add: add_score_Some)
  from Cons.IH [of d1] obtain d2 where
    d2: "add_scores d1 c rest = Inr d2"
      "get_scores_for_candidate d2 (Some c) = get_scores_for_candidate d1 (Some c) @ rest"
    by blast
  from get_scores_add_score [OF d1] d2 d1 p show ?case by simp
qed

text \<open>
  C7. For every candidate id \<open>c\<close> (NULL included) and every state of the store,
  \<open>delete_candidate_scores\<close> followed by \<open>get_scores_for_candidate\<close> for the same id
  returns the empty list, however many score rows the candidate had.
\<close>

theorem delete_then_get_scores_empty:
  "get_scores_for_candidate (delete_candidate_scores d c) c = []"
  by (simp add: get_scores_for_candidate_def delete_candidate_scores_def filter_empty_conv)

text \<open>Deleting the scores of one candidate leaves the scores of every other as they are.\<close>

lemma delete_candidate_scores_others:
  "c' \<noteq> c \<Longrightarrow>
   get_scores_for_candidate (delete_candidate_scores d (Some c)) (Some c') =
     get_scores_for_candidate d (Some c')"
proof -
  assume "c' \<noteq> c"
  then have "filter (\<lambda>s. sql_eq (sc_candidate_id s) (Some c'))
        (filter (\<lambda>s. \<not> sql_eq (sc_candidate_id s) (Some c)) (scores d)) =
      filter (\<lambda>s. sql_eq (sc_candidate_id s) (Some c')) (scores d)"
    unfolding filter_filter
    by (intro filter_cong refl) (auto simp: sql_eq_def split: option.splits)
  then show ?thesis
    by (simp add: get_scores_for_candidate_def delete_candidate_scores_def)
qed

text \<open>
  C3. The replace-all-scores sequence for a candidate \<open>c\<close>: after
  \<open>delete_candidate_scores\<close> and one \<open>add_score\<close> for each pair of the new list, every
  insert has succeeded and \<open>get_scores_for_candidate\<close> returns exactly the new pairs, in
  the order of insertion. Nothing of the old rows of \<open>c\<close> is left.
\<close>

theorem replace_all_scores_exact:
  "\<exists>d'. add_scores (delete_candidate_scores d (Some c)) c new = Inr d' \<and>
        get_scores_for_candidate d' (Some c) = new"
  using add_scores_total [of "delete_candidate_scores d (Some c)" c new]
  by (simp add: get_scores_for_candidate_def delete_candidate_scores_def filter_empty_conv)

theorem replace_all_scores_exact_witness:
  "get_scores_for_candidate example_db (Some ''c1'') = [(''A'', 3), (''B'', 7)] \<and>
   (\<exists>d'. add_scores (delete_candidate_scores example_db (Some ''c1'')) ''c1'' [(''A'', 9)] =
            Inr d' \<and>
          get_scores_for_candidate d' (Some ''c1'') = [(''A'', 9)])"
  using replace_all_scores_exact [of example_db "''c1''" "[(''A'', 9)]"]
  by (simp add: example_db_def get_scores_for_candidate_def)

text \<open>The small store is what the functions of \<^verbatim>\<open>data.py\<close> build from an empty database.\<close>

lemma example_db_reached:
  "create_session init_db ''s1'' (Some ''S1'') None (Some ''2024-05-01'') None = Inr (d1, ''s1'') \<Longrightarrow>
   add_candidate d1 ''c1'' (Some ''s1'') (Some ''Jane'') None None None (Some 3) None =
     Inr (d2, ''c1'') \<Longrightarrow>
   add_candidate d2 ''c2'' (Some ''s1'') (Some ''Sam'') None None None None None =
     Inr (d3, ''c2'') \<Longrightarrow>
   add_scores d3 ''c1'' [(''A'', 3), (''B'', 7)] = Inr d4 \<Longrightarrow> d4 = example_db"
  by (auto simp: create_session_def insert_session_def init_db_def add_candidate_def
      insert_candidate_def get_conn_def add_score_Some example_db_def round_one_def jane_def sam_def
      fits_int64_def)

subsection \<open>Creating a session\<close>

text \<open>
  C1, as the spec has it: \<open>create_session\<close> fails when the name is the empty string. It
  does not: on the empty database the call with the empty name inserts the row and
  returns the identifier.
\<close>

theorem create_session_empty_name_succeeds:
  "create_session init_db ''s1'' (Some []) None None None =
     Inr (init_db\<lparr>sessions :=
            [\<lparr>s_id = ''s1'', s_name = [], s_interviewer = None, s_date = None,
              s_notes = None\<rparr>]\<rparr>, ''s1'')"
  by (simp add: create_session_def insert_session_def init_db_def)

text \<open>
  C1, amended. \<open>create_session\<close> validates nothing itself. With an identifier that is not
  yet a key of the table it succeeds for every name that is a string, the empty string
  included, and returns the identifier; \<^verbatim>\<open>NOT NULL\<close> rejects only the name \<open>None\<close>, with an
  integrity error. The empty name is refused one level up, by the session form, which
  shows an error and leaves the store as it is.
\<close>

theorem create_session_name_check:
  "sid \<notin> set (map s_id (sessions d)) \<Longrightarrow>
   create_session d sid (Some name) interviewer date notes =
     Inr (d\<lparr>sessions := sessions d @
            [\<lparr>s_id = sid, s_name = name, s_interviewer = interviewer, s_date = date,
              s_notes = notes\<rparr>]\<rparr>, sid) \<and>
   create_session d sid None interviewer date notes = Inl IntegrityError \<and>
   submit_create_session d sid [] iv session_date nt =
     Inr (d, St_error ''Please enter a session name'')"
  by (simp add: create_session_def insert_session_def submit_create_session_def)

theorem create_session_name_check_witness:
  "''s2'' \<notin> set (map s_id (sessions example_db)) \<and>
   create_session example_db ''s2'' (Some []) None None None =
     Inr (example_db\<lparr>sessions := sessions example_db @
            [\<lparr>s_id = ''s2'', s_name = [], s_interviewer = None, s_date = None,
              s_notes = None\<rparr>]\<rparr>, ''s2'') \<and>
   create_session example_db ''s2'' None None None None = Inl IntegrityError \<and>
   submit_create_session example_db ''s2'' [] [] ''2024-05-02'' [] =
     Inr (example_db, St_error ''Please enter a session name'')"
proof -
  have h: "''s2'' \<notin> set (map s_id (sessions example_db))"
    by (simp add: example_db_def round_one_def)
  from h create_session_name_check [OF h, of "[]" None None None "[]" "''2024-05-02''" "[]"]
  show ?thesis by simp
qed

subsection \<open>Listing the sessions\<close>

lemma mset_insert_desc: "mset (insert_desc f x ys) = add_mset x (mset ys)"
  by (induction ys) auto

lemma mset_sort_desc: "mset (sort_desc f xs) = mset xs"
  by (induction xs) (auto simp: mset_insert_desc)

lemma set_insert_desc: "set (insert_desc f x ys) = insert x (set ys)"
  by (induction ys) auto

lemma sorted_insert_desc:
  "sorted_wrt (\<lambda>a b. f b \<le> f a) ys \<Longrightarrow> sorted_wrt (\<lambda>a b. f b \<le> f a) (insert_desc f x ys)"
  by (induction ys) (auto simp: set_insert_desc)

lemma sorted_sort_desc: "sorted_wrt (\<lambda>a b. f b \<le> f a) (sort_desc f xs)"
  by (induction xs) (auto simp: sorted_insert_desc)

lemma filter_insert_desc:
  "filter (\<lambda>r. f r = k) (insert_desc f x ys) =
     (if f x = k then x # filter (\<lambda>r. f r = k) ys else filter (\<lambda>r. f r = k) ys)"
  by (induction ys) auto

lemma filter_sort_desc: "filter (\<lambda>r. f r = k) (sort_desc f xs) = filter (\<lambda>r. f r = k) xs"
  by (induction xs) (auto simp: filter_insert_desc)

text \<open>
  C8. \<open>list_sessions\<close> returns every stored session: the result has the same rows with the
  same multiplicities as the table, hence the same length (nothing is cut off), and it
  is in descending order of the date, sessions without a date last.
\<close>

theorem list_sessions_all_by_date_desc:
  "mset (list_sessions d) = mset (sessions d) \<and>
   length (list_sessions d) = length (sessions d) \<and>
   sorted_wrt (\<lambda>a b. s_date b \<le> s_date a) (list_sessions d)"
proof -
  have m: "mset (list_sessions d) = mset (sessions d)"
    by (simp add: list_sessions_def mset_sort_desc)
  from m have "size (mset (list_sessions d)) = size (mset (sessions d))" by simp
  then have l: "length (list_sessions d) = length (sessions d)" by simp
  have s: "sorted_wrt (\<lambda>a b. s_date b \<le> s_date a) (list_sessions d)"
    by (simp add: list_sessions_def sorted_sort_desc)
  from m l s show ?thesis by simp
qed

theorem list_sessions_all_by_date_desc_witness:
  "list_sessions sessions_db =
     [session_on ''s3'' (Some ''2024-06-15''), session_on ''s1'' (Some ''2024-05-01''),
      session_on ''s4'' (Some ''2024-05-01''), session_on ''s2'' None] \<and>
   length (list_sessions sessions_db) = 4"
  using list_sessions_all_by_date_desc [of sessions_db]
  by (simp add: list_sessions_def sessions_db_def session_on_def init_db_def)

subsection \<open>Adding a candidate\<close>

text \<open>
  C9. \<open>add_candidate\<close> does not look the session up. Given an identifier that is not yet a
  key of the table of candidates, the outcome is the same for every \<open>session_id\<close>, also
  one that is the key of no session: the row is inserted and the new identifier returned,
  unless \<open>experience_years\<close> does not fit 64 bits, which is the one failure left. (The
  foreign key of the schema would refuse an orphaned row, but the connection does not
  enforce it.)
\<close>

theorem add_candidate_no_session_check:
  "cid \<notin> set (map c_id (candidates d)) \<Longrightarrow>
   add_candidate d cid session_id name email phone position experience_years notes =
     (if (case experience_years of None \<Rightarrow> False | Some n \<Rightarrow> \<not> fits_int64 n)
      then Inl OverflowError
      else Inr (d\<lparr>candidates := candidates d @
            [\<lparr>c_id = cid, c_session_id = session_id, c_name = name, c_email = email,
              c_phone = phone, c_position = position,
              c_experience_years = experience_years, c_notes = notes\<rparr>]\<rparr>, cid))"
  by (simp add: add_candidate_def insert_candidate_def get_conn_def)

theorem add_candidate_no_session_check_witness:
  "''c9'' \<notin> set (map c_id (candidates example_db)) \<and>
   ''nowhere'' \<notin> set (map s_id (sessions example_db)) \<and>
   add_candidate example_db ''c9'' (Some ''nowhere'') (Some ''Kim'') None None None (Some 4) None =
     Inr (example_db\<lparr>candidates := candidates example_db @
            [\<lparr>c_id = ''c9'', c_session_id = Some ''nowhere'', c_name = Some ''Kim'',
              c_email = None, c_phone = None, c_position = None,
              c_experience_years = Some 4, c_notes = None\<rparr>]\<rparr>, ''c9'') \<and>
   add_candidate example_db ''c9'' (Some ''nowhere'') (Some ''Kim'') None None None
     (Some (2 ^ 63)) None = Inl OverflowError"
proof -
  have h: "''c9'' \<notin> set (map c_id (candidates example_db))"
    by (simp add: example_db_def round_one_def jane_def sam_def)
  have s: "''nowhere'' \<notin> set (map s_id (sessions example_db))"
    by (simp add: example_db_def round_one_def)
  from h s
    add_candidate_no_session_check [OF h, of "Some ''nowhere''" "Some ''Kim''" None None None
      "Some 4" None]
    add_candidate_no_session_check [OF h, of "Some ''nowhere''" "Some ''Kim''" None None None
      "Some (2 ^ 63)" None]
  show ?thesis by (simp add: fits_int64_def)
qed

subsection \<open>Deleting a session\<close>

text \<open>
  C2. Let \<open>s\<close> be a session of the store, in which the identifiers of the candidates are
  distinct (the primary key). After \<open>s\<close> is deleted its row is gone; the candidates that
  remain are exactly those whose \<open>session_id\<close> is not the identifier of \<open>s\<close>, so the
  session has no candidate left; and every candidate that had that \<open>session_id\<close> has no
  score left, while the scores of every other candidate are as they were.
\<close>

theorem delete_session_cascade:
  assumes "s \<in> set (sessions d)" and "distinct (map c_id (candidates d))"
  shows
    "s \<notin> set (sessions (delete_session d (Some (s_id s)))) \<and>
     candidates (delete_session d (Some (s_id s))) =
       filter (\<lambda>c. c_session_id c \<noteq> Some (s_id s)) (candidates d) \<and>
     list_candidates (delete_session d (Some (s_id s))) (Some (s_id s)) = [] \<and>
     (\<forall>c \<in> set (candidates d).
        get_scores_for_candidate (delete_session d (Some (s_id s))) (Some (c_id c)) =
          (if c_session_id c = Some (s_id s) then []
           else get_scores_for_candidate d (Some (c_id c))))"
proof -
  let ?sid = "s_id s"
  let ?d' = "delete_session d (Some ?sid)"
  let ?dead = "filter (\<lambda>c. c_session_id c = Some ?sid) (candidates d)"
  have gone: "set (map (\<lambda>x. Some (s_id x))
      (filter (\<lambda>x. sql_eq (Some (s_id x)) (Some ?sid)) (sessions d))) = {Some ?sid}"
    using assms(1) by force
  have ses: "sessions ?d' = filter (\<lambda>x. s_id x \<noteq> ?sid) (sessions d)"
    by (simp add: delete_session_def Let_def)
  have cands: "candidates ?d' = filter (\<lambda>c. c_session_id c \<noteq> Some ?sid) (candidates d)"
    unfolding delete_session_def Let_def gone by simp
  have scs: "scores ?d' =
      filter (\<lambda>x. sc_candidate_id x \<notin> set (map (\<lambda>c. Some (c_id c)) ?dead)) (scores d)"
    unfolding delete_session_def Let_def gone by simp
  have dead: "set ?dead = {c \<in> set (candidates d). c_session_id c = Some ?sid}"
    by auto
  have a: "s \<notin> set (sessions ?d')"
    by (simp add: ses)
  have b: "list_candidates ?d' (Some ?sid) = []"
    by (simp add: list_candidates_def cands filter_empty_conv sql_eq_def split: option.splits)
  have c: "get_scores_for_candidate ?d' (Some (c_id c)) =
      (if c_session_id c = Some ?sid then [] else get_scores_for_candidate d (Some (c_id c)))"
    if c: "c \<in> set (candidates d)" for c
  proof (cases "c_session_id c = Some ?sid")
    case True
    with c have "c \<in> set ?dead" by (simp add: dead)
    then have "Some (c_id c) \<in> set (map (\<lambda>c. Some (c_id c)) ?dead)"
      by (metis (no_types, lifting) imageI set_map)
    then have "filter (\<lambda>x. sql_eq (sc_candidate_id x) (Some (c_id c))) (scores ?d') = []"
      by (auto simp: scs filter_empty_conv sql_eq_def split: option.splits)
    with True show ?thesis by (simp add: get_scores_for_candidate_def)
  next
    case False
    have "Some (c_id c) \<notin> set (map (\<lambda>c. Some (c_id c)) ?dead)"
    proof
      assume "Some (c_id c) \<in> set (map (\<lambda>c. Some (c_id c)) ?dead)"
      then obtain c' where c': "c' \<in> set ?dead" and e: "c_id c' = c_id c" by auto
      from c' have "c' \<in> set (candidates d)" and r: "c_session_id c' = Some ?sid"
        by (simp_all add: dead)
      with assms(2) c e have "c' = c"
        by (metis distinct_map inj_onD)
      with r False show False by simp
    qed
    then have "filter (\<lambda>x. sql_eq (sc_candidate_id x) (Some (c_id c))) (scores ?d') =
        filter (\<lambda>x. sql_eq (sc_candidate_id x) (Some (c_id c))) (scores d)"
      unfolding scs filter_filter
      by (intro filter_cong refl) (auto simp: sql_eq_def split: option.splits)
    with False show ?thesis by (simp add: get_scores_for_candidate_def)
  qed
  from a cands b c show ?thesis by blast
qed

theorem delete_session_cascade_witness:
  "round_one \<in> set (sessions example_db) \<and> s_id round_one = ''s1'' \<and>
   distinct (map c_id (candidates example_db)) \<and>
   delete_session example_db (Some ''s1'') =
     example_db\<lparr>sessions := [], candidates := [], scores := []\<rparr> \<and>
   list_candidates (delete_session example_db (Some ''s1'')) (Some ''s1'') = [] \<and>
   jane \<in> set (candidates example_db) \<and> c_session_id jane = Some ''s1'' \<and>
   get_scores_for_candidate example_db (Some ''c1'') = [(''A'', 3), (''B'', 7)] \<and>
   get_scores_for_candidate (delete_session example_db (Some ''s1'')) (Some ''c1'') = []"
proof -
  have h: "round_one \<in> set (sessions example_db)"
    by (simp add: example_db_def)
  have k: "distinct (map c_id (candidates example_db))"
    by (simp add: example_db_def round_one_def jane_def sam_def)
  have i: "s_id round_one = ''s1''"
    by (simp add: round_one_def)
  have j: "jane \<in> set (candidates example_db)" "c_id jane = ''c1''"
      "c_session_id jane = Some ''s1''"
    by (simp_all add: example_db_def jane_def)
  have e: "delete_session example_db (Some ''s1'') =
      example_db\<lparr>sessions := [], candidates := [], scores := []\<rparr>"
    by (simp add: delete_session_def example_db_def round_one_def jane_def sam_def)
  have g: "get_scores_for_candidate example_db (Some ''c1'') = [(''A'', 3), (''B'', 7)]"
    by (simp add: example_db_def get_scores_for_candidate_def)
  from delete_session_cascade [OF h k] i j
  have "list_candidates (delete_session example_db (Some ''s1'')) (Some ''s1'') = []"
    and "get_scores_for_candidate (delete_session example_db (Some ''s1'')) (Some ''c1'') = []"
    by (simp, metis)
  with h k i e j g show ?thesis by simp
qed

subsection \<open>Saving the scoring form\<close>

lemma get_scores_update_notes:
  "get_scores_for_candidate (update_candidate_notes d c n) k = get_scores_for_candidate d k"
  by (simp add: get_scores_for_candidate_def update_candidate_notes_def)

lemma form_vals_eq: "form_vals slider = map (\<lambda>m. (m, slider m)) METRICS"
  by (simp add: form_vals_def METRICS_def)

text \<open>
  C10. Saving the scoring form for a candidate always succeeds, and afterwards the
  candidate has exactly five score rows, one for each metric of \<open>METRICS\<close> in that order
  with the value of its slider: no metric twice, none missing, nothing else.
\<close>

theorem save_scores_one_row_per_metric:
  "\<exists>d'. save_scores d c slider note = Inr d' \<and>
        get_scores_for_candidate d' (Some c) = map (\<lambda>m. (m, slider m)) METRICS \<and>
        map fst (get_scores_for_candidate d' (Some c)) = METRICS \<and>
        length (get_scores_for_candidate d' (Some c)) = 5 \<and>
        distinct (map fst (get_scores_for_candidate d' (Some c)))"
proof -
  let ?d1 = "delete_candidate_scores d (Some c)"
  obtain d2 where d2: "add_scores ?d1 c (form_vals slider) = Inr d2"
    and g: "get_scores_for_candidate d2 (Some c) =
            get_scores_for_candidate ?d1 (Some c) @ form_vals slider"
    using add_scores_total [of ?d1 c "form_vals slider"] by blast
  have e: "get_scores_for_candidate ?d1 (Some c) = []"
    by (simp add: get_scores_for_candidate_def delete_candidate_scores_def filter_empty_conv)
  let ?d3 = "if note \<noteq> [] then update_candidate_notes d2 (Some c) (Some note) else d2"
  have s: "save_scores d c slider note = Inr ?d3"
    using d2 by (simp add: save_scores_def)
  have r: "get_scores_for_candidate ?d3 (Some c) = map (\<lambda>m. (m, slider m)) METRICS"
    using g e by (simp add: get_scores_update_notes form_vals_eq)
  have m: "map fst (map (\<lambda>m. (m, slider m)) METRICS) = METRICS"
    by (simp add: comp_def)
  have l: "length METRICS = 5" and dm: "distinct METRICS"
    by (simp_all add: METRICS_def)
  from s r m l dm show ?thesis by (metis length_map)
qed


theorem save_scores_one_row_per_metric_witness:
  "\<exists>d'. save_scores example_db ''c1'' (\<lambda>m. if m = ''Projects'' then 8 else 5) ''good'' = Inr d' \<and>
        get_scores_for_candidate d' (Some ''c1'') =
          [(''Communication'', 5), (''Technical Skills'', 5), (''Projects'', 8),
           (''Problem Solving'', 5), (''Culture Fit'', 5)]"
  using save_scores_one_row_per_metric
    [of example_db "''c1''" "\<lambda>m. if m = ''Projects'' then 8 else 5" "''good''"]
  by (auto simp: METRICS_def)

subsection \<open>The aggregate query\<close>

text \<open>
  The primary key keeps the identifiers of the candidates distinct: the empty table has
  no two rows with the same identifier, and an insert that succeeds keeps it so.
\<close>

lemma add_candidate_keeps_key:
  "distinct (map c_id (candidates d)) \<Longrightarrow>
   add_candidate d cid session_id name email phone position experience_years notes = Inr (d', r) \<Longrightarrow>
   distinct (map c_id (candidates d'))"
  by (auto simp: add_candidate_def insert_candidate_def get_conn_def split: if_splits)

lemma update_candidate_notes_keeps_ids:
  "map c_id (candidates (update_candidate_notes d c n)) = map c_id (candidates d)"
  by (simp add: update_candidate_notes_def comp_def)

lemma sql_eq_Some_left: "sql_eq (Some x) b = (b = Some x)"
  by (cases b) auto

lemma sql_eq_Some_right: "sql_eq a (Some y) = (a = Some y)"
  by (cases a) auto

lemma filter_concat_none:
  "(\<And>c r. c \<in> set cs \<Longrightarrow> r \<in> set (J c) \<Longrightarrow> \<not> P r) \<Longrightarrow> filter P (concat (map J cs)) = []"
  by (induction cs) (auto simp: filter_empty_conv)

lemma filter_concat_key:
  assumes "distinct (map k cs)" and "c \<in> set cs"
    and "\<And>c' r. c' \<in> set cs \<Longrightarrow> r \<in> set (J c') \<Longrightarrow> g r = k c'"
  shows "filter (\<lambda>r. g r = k c) (concat (map J cs)) = J c"
  using assms
proof (induction cs)
  case Nil
  then show ?case by simp
next
  case (Cons a cs)
  have own: "filter (\<lambda>r. g r = k c') (J c') = J c'" if "c' \<in> set (a # cs)" for c'
    using Cons.prems(3) [OF that] by (simp add: filter_id_conv)
  show ?case
  proof (cases "c = a")
    case True
    have "filter (\<lambda>r. g r = k a) (concat (map J cs)) = []"
    proof (rule filter_concat_none)
      fix c' r assume c': "c' \<in> set cs" and r: "r \<in> set (J c')"
      from Cons.prems(3) [of c' r] c' r have "g r = k c'" by simp
      moreover from Cons.prems(1) c' have "k c' \<noteq> k a" by (metis distinct.simps(2) imageI list.simps(9) set_map)
      ultimately show "g r \<noteq> k a" by simp
    qed
    with own [of a] True show ?thesis by simp
  next
    case False
    with Cons.prems have c: "c \<in> set cs" and ne: "k a \<noteq> k c" by auto
    have "filter (\<lambda>r. g r = k c) (J a) = []"
      using Cons.prems(3) [of a] ne by (auto simp: filter_empty_conv)
    moreover have "filter (\<lambda>r. g r = k c) (concat (map J cs)) = J c"
      using Cons.IH Cons.prems c by simp
    ultimately show ?thesis by simp
  qed
qed

lemma distinct_singleton: "distinct xs \<Longrightarrow> set xs = {x} \<Longrightarrow> xs = [x]"
proof (cases xs)
  case Nil
  assume "set xs = {x}"
  with Nil show ?thesis by simp
next
  case (Cons a as)
  assume d: "distinct xs" and s: "set xs = {x}"
  from s Cons have a: "a = x" by auto
  from s Cons have "set as \<subseteq> {x}" by auto
  moreover from d Cons a have "x \<notin> set as" by simp
  ultimately have "set as = {}" by (metis subset_singletonD insertI1)
  with a Cons show ?thesis by simp
qed

lemma sql_avg_Some:
  "vs \<noteq> [] \<Longrightarrow> sql_avg (map Some vs) = Some (sum_list vs / real (length vs))"
  by (simp add: sql_avg_def List.map_filter_def comp_def)

lemma sql_avg_Nones: "sql_avg [None] = None"
  by (simp add: sql_avg_def List.map_filter_def)


lemma filter_eq_distinct: "distinct xs \<Longrightarrow> x \<in> set xs \<Longrightarrow> filter (\<lambda>k. k = x) xs = [x]"
proof (rule distinct_singleton)
  assume "distinct xs" then show "distinct (filter (\<lambda>k. k = x) xs)" by simp
next
  assume "x \<in> set xs" then show "set (filter (\<lambda>k. k = x) xs) = {x}" by auto
qed

text \<open>The rows that the left join produces for one candidate.\<close>

lemma left_join_candidate:
  assumes "distinct (map c_id (candidates d))"
    and "c \<in> set (candidates d)" and "c_session_id c = Some sid"
  shows "filter (\<lambda>r. c_id (fst r) = c_id c) (left_join d (Some sid)) =
     (let ss = filter (\<lambda>s. sc_candidate_id s = Some (c_id c)) (scores d)
      in if ss = [] then [(c, None)] else map (\<lambda>s. (c, Some s)) ss)"
proof -
  let ?cs = "filter (\<lambda>c. sql_eq (c_session_id c) (Some sid)) (candidates d)"
  let ?J = "\<lambda>c. let ss = filter (\<lambda>s. sql_eq (Some (c_id c)) (sc_candidate_id s)) (scores d)
            in if ss = [] then [(c, None)] else map (\<lambda>s. (c, Some s)) ss"
  have d: "distinct (map c_id ?cs)"
    using assms(1) by (rule distinct_map_filter)
  have m: "c \<in> set ?cs"
    using assms(2,3) by simp
  have k: "c_id (fst r) = c_id c'" if "c' \<in> set ?cs" and "r \<in> set (?J c')" for c' r
    using that(2) by (auto simp: Let_def split: if_splits)
  have "filter (\<lambda>r. c_id (fst r) = c_id c) (concat (map ?J ?cs)) = ?J c"
    using d m k by (rule filter_concat_key)
  then show ?thesis
    by (simp add: left_join_def sql_eq_Some_left)
qed

lemma aggregate_group_fields [simp]:
  "a_candidate_id (aggregate_group k g) = fst k" "a_metric (aggregate_group k g) = snd k"
  by (simp_all add: aggregate_group_def)

lemma group_keys_distinct:
  "distinct (sort (remdups (map group_key rows)))"
  "set (sort (remdups (map group_key rows))) = group_key ` set rows"
  by simp_all

text \<open>The rows of the result for one candidate come from the keys of that candidate.\<close>

lemma aggregate_rows_for_key:
  assumes "k \<in> group_key ` set (left_join d sid)"
  shows "filter (\<lambda>r. a_candidate_id r = fst k \<and> a_metric r = snd k) (get_aggregate_scores d sid) =
     [aggregate_group k (filter (\<lambda>r. group_key r = k) (left_join d sid))]"
proof -
  let ?rows = "left_join d sid"
  let ?keys = "sort (remdups (map group_key ?rows))"
  let ?F = "\<lambda>k. aggregate_group k (filter (\<lambda>r. group_key r = k) ?rows)"
  have "filter (\<lambda>r. a_candidate_id r = fst k \<and> a_metric r = snd k) (map ?F ?keys) =
        map ?F (filter (\<lambda>k'. k' = k) ?keys)"
    by (simp add: filter_map comp_def prod_eq_iff)
  also have "filter (\<lambda>k'. k' = k) ?keys = [k]"
    using assms by (intro filter_eq_distinct) simp_all
  finally show ?thesis
    by (simp add: get_aggregate_scores_def Let_def)
qed

lemma aggregate_rows_for_candidate:
  assumes "group_key ` set (filter (\<lambda>r. c_id (fst r) = cid) (left_join d sid)) = {k}"
  shows "filter (\<lambda>r. a_candidate_id r = cid) (get_aggregate_scores d sid) =
     [aggregate_group k (filter (\<lambda>r. group_key r = k) (left_join d sid))]"
proof -
  let ?rows = "left_join d sid"
  let ?keys = "sort (remdups (map group_key ?rows))"
  let ?F = "\<lambda>k. aggregate_group k (filter (\<lambda>r. group_key r = k) ?rows)"
  have "filter (\<lambda>r. a_candidate_id r = cid) (map ?F ?keys) =
        map ?F (filter (\<lambda>k'. fst k' = cid) ?keys)"
    by (simp add: filter_map comp_def)
  also have "filter (\<lambda>k'. fst k' = cid) ?keys = [k]"
  proof (rule distinct_singleton)
    show "distinct (filter (\<lambda>k'. fst k' = cid) ?keys)" by simp
    have "set (filter (\<lambda>k'. fst k' = cid) ?keys) =
          group_key ` set (filter (\<lambda>r. c_id (fst r) = cid) ?rows)"
      by (auto simp: group_key_def)
    with assms show "set (filter (\<lambda>k'. fst k' = cid) ?keys) = {k}" by simp
  qed
  finally show ?thesis
    by (simp add: get_aggregate_scores_def Let_def)
qed

text \<open>The rows of the result for one candidate of the session.\<close>

lemma aggregate_rows_of_candidate:
  assumes "distinct (map c_id (candidates d))"
    and "c \<in> set (candidates d)" and "c_session_id c = Some sid"
  shows
    "(\<forall>m. m \<in> sc_metric ` set (filter (\<lambda>s. sc_candidate_id s = Some (c_id c)) (scores d)) \<longrightarrow>
        filter (\<lambda>r. a_candidate_id r = c_id c \<and> a_metric r = Some m)
          (get_aggregate_scores d (Some sid)) =
        [\<lparr>a_candidate_id = c_id c, a_name = c_name c, a_metric = Some m,
          a_avg_value =
            Some (sum_list (map sc_value (filter (\<lambda>s. sc_metric s = m)
                    (filter (\<lambda>s. sc_candidate_id s = Some (c_id c)) (scores d)))) /
                  real (length (filter (\<lambda>s. sc_metric s = m)
                    (filter (\<lambda>s. sc_candidate_id s = Some (c_id c)) (scores d)))))\<rparr>]) \<and>
     (filter (\<lambda>s. sc_candidate_id s = Some (c_id c)) (scores d) = [] \<longrightarrow>
        filter (\<lambda>r. a_candidate_id r = c_id c) (get_aggregate_scores d (Some sid)) =
        [\<lparr>a_candidate_id = c_id c, a_name = c_name c, a_metric = None, a_avg_value = None\<rparr>])"
proof (intro conjI allI impI)
  let ?S = "filter (\<lambda>s. sc_candidate_id s = Some (c_id c)) (scores d)"
  let ?rows = "left_join d (Some sid)"
  have own: "filter (\<lambda>r. c_id (fst r) = c_id c) ?rows =
      (if ?S = [] then [(c, None)] else map (\<lambda>s. (c, Some s)) ?S)"
    using left_join_candidate [OF assms] by (simp add: Let_def)
  have grp: "filter (\<lambda>r. group_key r = (c_id c, km)) ?rows =
      filter (\<lambda>r. map_option sc_metric (snd r) = km)
        (if ?S = [] then [(c, None)] else map (\<lambda>s. (c, Some s)) ?S)" for km
  proof -
    have "filter (\<lambda>r. group_key r = (c_id c, km)) ?rows =
          filter (\<lambda>r. map_option sc_metric (snd r) = km)
            (filter (\<lambda>r. c_id (fst r) = c_id c) ?rows)"
      by (simp add: group_key_def conj_commute)
    then show ?thesis by (simp only: own)
  qed
  {
    fix m
    assume m: "m \<in> sc_metric ` set ?S"
    let ?Sm = "filter (\<lambda>s. sc_metric s = m) ?S"
    from m have nem: "?Sm \<noteq> []" by (auto simp: filter_empty_conv)
    then have ne: "?S \<noteq> []" by (metis filter.simps(1))
    have g: "filter (\<lambda>r. group_key r = (c_id c, Some m)) ?rows = map (\<lambda>s. (c, Some s)) ?Sm"
      using ne by (simp add: grp filter_map comp_def)
    have "(c_id c, Some m) \<in> group_key ` set (filter (\<lambda>r. c_id (fst r) = c_id c) ?rows)"
      using m ne by (simp only: own) (auto simp: group_key_def image_iff)
    then have key: "(c_id c, Some m) \<in> group_key ` set ?rows" by auto
    have nm: "(case map (\<lambda>s. (c, Some s)) ?Sm of [] \<Rightarrow> None | r # _ \<Rightarrow> c_name (fst r)) = c_name c"
      using nem by (cases ?Sm) simp_all
    have av: "sql_avg (map (\<lambda>r. map_option sc_value (snd r)) (map (\<lambda>s. (c, Some s)) ?Sm)) =
        Some (sum_list (map sc_value ?Sm) / real (length ?Sm))"
      using sql_avg_Some [of "map sc_value ?Sm"] nem by (simp add: comp_def)
    have "aggregate_group (c_id c, Some m) (map (\<lambda>s. (c, Some s)) ?Sm) =
        \<lparr>a_candidate_id = c_id c, a_name = c_name c, a_metric = Some m,
         a_avg_value = Some (sum_list (map sc_value ?Sm) / real (length ?Sm))\<rparr>"
      unfolding aggregate_group_def nm av by simp
    with aggregate_rows_for_key [OF key] g
    show "filter (\<lambda>r. a_candidate_id r = c_id c \<and> a_metric r = Some m)
          (get_aggregate_scores d (Some sid)) =
        [\<lparr>a_candidate_id = c_id c, a_name = c_name c, a_metric = Some m,
          a_avg_value = Some (sum_list (map sc_value ?Sm) / real (length ?Sm))\<rparr>]"
      by simp
  }
  {
    assume e: "?S = []"
    have g: "filter (\<lambda>r. group_key r = (c_id c, None)) ?rows = [(c, None)]"
      using e by (simp add: grp)
    have "group_key ` set (filter (\<lambda>r. c_id (fst r) = c_id c) ?rows) = {(c_id c, None)}"
      using e by (simp only: own) (simp add: group_key_def)
    from aggregate_rows_for_candidate [OF this] g
    show "filter (\<lambda>r. a_candidate_id r = c_id c) (get_aggregate_scores d (Some sid)) =
        [\<lparr>a_candidate_id = c_id c, a_name = c_name c, a_metric = None, a_avg_value = None\<rparr>]"
      by (simp add: aggregate_group_def sql_avg_Nones)
  }
qed


text \<open>Where the rows of the left join come from.\<close>

lemma left_join_rows:
  assumes "r \<in> set (left_join d (Some sid))"
  shows "fst r \<in> set (candidates d) \<and> c_session_id (fst r) = Some sid \<and>
     (case snd r of
        None \<Rightarrow> filter (\<lambda>s. sc_candidate_id s = Some (c_id (fst r))) (scores d) = []
      | Some x \<Rightarrow> x \<in> set (filter (\<lambda>s. sc_candidate_id s = Some (c_id (fst r))) (scores d)))"
  using assms
  by (auto simp: left_join_def Let_def sql_eq_Some_left sql_eq_Some_right
      split: if_splits option.splits)

lemma aggregate_rows_bound:
  assumes "row \<in> set (get_aggregate_scores d (Some sid))"
  shows "\<exists>c \<in> set (candidates d). c_session_id c = Some sid \<and> a_candidate_id row = c_id c \<and>
     (case a_metric row of
        None \<Rightarrow> filter (\<lambda>s. sc_candidate_id s = Some (c_id c)) (scores d) = []
      | Some m \<Rightarrow>
          m \<in> sc_metric ` set (filter (\<lambda>s. sc_candidate_id s = Some (c_id c)) (scores d)))"
proof -
  from assms obtain r where r: "r \<in> set (left_join d (Some sid))"
    and id: "a_candidate_id row = c_id (fst r)"
    and me: "a_metric row = map_option sc_metric (snd r)"
    by (auto simp: get_aggregate_scores_def Let_def group_key_def)
  from left_join_rows [OF r] id me show ?thesis
    by (intro bexI [of _ "fst r"]) (auto split: option.splits)
qed

text \<open>
  C4. In a store where the identifiers of the candidates are distinct (the primary key),
  the result of \<open>get_aggregate_scores\<close> for session \<open>sid\<close> is this and nothing else. For
  every candidate \<open>c\<close> of the session and every metric \<open>m\<close> for which \<open>c\<close> has a score row
  there is exactly one row for the pair \<open>(c, m)\<close>, and its average is the sum of the
  values of the score rows of \<open>c\<close> with metric \<open>m\<close> divided by their number. For every
  candidate of the session without any score row there is exactly one row, with the
  metric and the average both NULL: the candidate is not left out. And every row of the
  result is such a row: it belongs to a candidate of the session, and its metric is one
  of that candidate's score rows, or NULL if the candidate has none.
\<close>

theorem aggregate_scores_rows:
  assumes "distinct (map c_id (candidates d))"
  shows
    "(\<forall>c \<in> set (candidates d). c_session_id c = Some sid \<longrightarrow>
        (\<forall>m. m \<in> sc_metric ` set (filter (\<lambda>s. sc_candidate_id s = Some (c_id c)) (scores d)) \<longrightarrow>
           filter (\<lambda>r. a_candidate_id r = c_id c \<and> a_metric r = Some m)
             (get_aggregate_scores d (Some sid)) =
           [\<lparr>a_candidate_id = c_id c, a_name = c_name c, a_metric = Some m,
             a_avg_value =
               Some (sum_list (map sc_value (filter (\<lambda>s. sc_metric s = m)
                       (filter (\<lambda>s. sc_candidate_id s = Some (c_id c)) (scores d)))) /
                     real (length (filter (\<lambda>s. sc_metric s = m)
                       (filter (\<lambda>s. sc_candidate_id s = Some (c_id c)) (scores d)))))\<rparr>]) \<and>
        (filter (\<lambda>s. sc_candidate_id s = Some (c_id c)) (scores d) = [] \<longrightarrow>
           filter (\<lambda>r. a_candidate_id r = c_id c) (get_aggregate_scores d (Some sid)) =
           [\<lparr>a_candidate_id = c_id c, a_name = c_name c, a_metric = None,
             a_avg_value = None\<rparr>])) \<and>
     (\<forall>row \<in> set (get_aggregate_scores d (Some sid)).
        \<exists>c \<in> set (candidates d). c_session_id c = Some sid \<and> a_candidate_id row = c_id c \<and>
          (case a_metric row of
             None \<Rightarrow> filter (\<lambda>s. sc_candidate_id s = Some (c_id c)) (scores d) = []
           | Some m \<Rightarrow>
               m \<in> sc_metric ` set (filter (\<lambda>s. sc_candidate_id s = Some (c_id c)) (scores d))))"
    (is "?own \<and> ?bound")
proof -
  have a: ?own
    by (intro ballI impI) (rule aggregate_rows_of_candidate [OF assms])
  have b: ?bound
    by (intro ballI) (rule aggregate_rows_bound)
  from a b show ?thesis ..
qed

theorem aggregate_scores_rows_witness:
  "distinct (map c_id (candidates two_sessions_db)) \<and>
   jane \<in> set (candidates two_sessions_db) \<and> c_session_id jane = Some ''s1'' \<and>
   sam \<in> set (candidates two_sessions_db) \<and> c_session_id sam = Some ''s1'' \<and>
   ''A'' \<in> sc_metric `
     set (filter (\<lambda>s. sc_candidate_id s = Some (c_id jane)) (scores two_sessions_db)) \<and>
   filter (\<lambda>r. a_candidate_id r = ''c1'' \<and> a_metric r = Some ''A'')
     (get_aggregate_scores two_sessions_db (Some ''s1'')) =
     [\<lparr>a_candidate_id = ''c1'', a_name = Some ''Jane'', a_metric = Some ''A'',
       a_avg_value = Some 3\<rparr>] \<and>
   filter (\<lambda>s. sc_candidate_id s = Some (c_id sam)) (scores two_sessions_db) = [] \<and>
   filter (\<lambda>r. a_candidate_id r = ''c2'') (get_aggregate_scores two_sessions_db (Some ''s1'')) =
     [\<lparr>a_candidate_id = ''c2'', a_name = Some ''Sam'', a_metric = None, a_avg_value = None\<rparr>] \<and>
   get_aggregate_scores two_sessions_db (Some ''s1'') \<noteq> [] \<and>
   filter (\<lambda>r. a_candidate_id r = ''c3'') (get_aggregate_scores two_sessions_db (Some ''s1'')) =
     []"
proof -
  have sc: "scores two_sessions_db =
      [\<lparr>sc_id = 1, sc_candidate_id = Some ''c1'', sc_metric = ''A'', sc_value = 3\<rparr>,
       \<lparr>sc_id = 2, sc_candidate_id = Some ''c1'', sc_metric = ''B'', sc_value = 7\<rparr>,
       \<lparr>sc_id = 3, sc_candidate_id = Some ''c3'', sc_metric = ''A'', sc_value = 10\<rparr>]"
    by (simp add: two_sessions_db_def example_db_def)
  have cs: "candidates two_sessions_db = [jane, sam, lee]"
    by (simp add: two_sessions_db_def)
  have h: "distinct (map c_id (candidates two_sessions_db))"
    by (simp add: cs jane_def sam_def lee_def)
  have j: "jane \<in> set (candidates two_sessions_db)" "c_session_id jane = Some ''s1''"
    by (simp_all add: cs jane_def)
  have s: "sam \<in> set (candidates two_sessions_db)" "c_session_id sam = Some ''s1''"
    by (simp_all add: cs sam_def)
  have m: "''A'' \<in> sc_metric `
      set (filter (\<lambda>s. sc_candidate_id s = Some (c_id jane)) (scores two_sessions_db))"
    by (simp add: sc jane_def)
  have e: "filter (\<lambda>s. sc_candidate_id s = Some (c_id sam)) (scores two_sessions_db) = []"
    by (simp add: sc sam_def)
  note t = aggregate_scores_rows [OF h, of "''s1''"]
  from t j m
  have rj: "filter (\<lambda>r. a_candidate_id r = ''c1'' \<and> a_metric r = Some ''A'')
     (get_aggregate_scores two_sessions_db (Some ''s1'')) =
     [\<lparr>a_candidate_id = ''c1'', a_name = Some ''Jane'', a_metric = Some ''A'',
       a_avg_value = Some 3\<rparr>]"
    by (simp add: cs) (simp add: sc jane_def)
  from t s e
  have rs: "filter (\<lambda>r. a_candidate_id r = ''c2'')
     (get_aggregate_scores two_sessions_db (Some ''s1'')) =
     [\<lparr>a_candidate_id = ''c2'', a_name = Some ''Sam'', a_metric = None, a_avg_value = None\<rparr>]"
    by (simp add: cs) (simp add: sam_def)
  from rs have ne: "get_aggregate_scores two_sessions_db (Some ''s1'') \<noteq> []"
    by (metis filter.simps(1) list.distinct(1))
  have b: "a_candidate_id row \<noteq> ''c3''"
    if "row \<in> set (get_aggregate_scores two_sessions_db (Some ''s1''))" for row
  proof -
    from t that obtain c where "c \<in> set (candidates two_sessions_db)"
      and "c_session_id c = Some ''s1''" and "a_candidate_id row = c_id c"
      by blast
    then show ?thesis by (auto simp: cs jane_def sam_def lee_def)
  qed
  from b have nl: "filter (\<lambda>r. a_candidate_id r = ''c3'')
      (get_aggregate_scores two_sessions_db (Some ''s1'')) = []"
    by (simp add: filter_empty_conv)
  from h j s m e rj rs ne nl show ?thesis by simp
qed

text \<open>The whole result on the small store.\<close>

lemma aggregate_example:
  "get_aggregate_scores example_db (Some ''s1'') =
     [\<lparr>a_candidate_id = ''c1'', a_name = Some ''Jane'', a_metric = Some ''A'', a_avg_value = Some 3\<rparr>,
      \<lparr>a_candidate_id = ''c1'', a_name = Some ''Jane'', a_metric = Some ''B'', a_avg_value = Some 7\<rparr>,
      \<lparr>a_candidate_id = ''c2'', a_name = Some ''Sam'', a_metric = None, a_avg_value = None\<rparr>]"
  by (simp add: get_aggregate_scores_def left_join_def example_db_def round_one_def jane_def sam_def
      group_key_def aggregate_group_def sql_avg_def List.map_filter_def)

section \<open>Properties of the interview tab\<close>

subsection \<open>Top performers\<close>

lemma sort_desc_first_max:
  "sort_desc f (x # xs) =
     first_max f x xs # sort_desc f (remove1 (first_max f x xs) (x # xs))"
proof (induction xs arbitrary: x)
  case Nil
  show ?case by simp
next
  case (Cons y ys)
  define m where "m = first_max f y ys"
  define tl_sorted where "tl_sorted = sort_desc f (y # ys)"
  define rest where "rest = sort_desc f (remove1 m (y # ys))"
  have ih: "tl_sorted = m # rest"
    unfolding tl_sorted_def rest_def m_def by (rule Cons.IH)
  have step: "sort_desc f (x # y # ys) = insert_desc f x tl_sorted"
    by (simp add: tl_sorted_def)
  show ?case
  proof (cases "f m \<le> f x")
    case True
    then have fm: "first_max f x (y # ys) = x"
      by (simp add: m_def)
    have "sort_desc f (x # y # ys) = x # tl_sorted"
      using True by (simp only: step ih insert_desc.simps if_True)
    moreover have "remove1 x (x # y # ys) = y # ys" by simp
    ultimately show ?thesis
      by (simp only: fm tl_sorted_def)
  next
    case False
    then have fm: "first_max f x (y # ys) = m"
      by (simp add: m_def)
    from False have ne: "x \<noteq> m" by auto
    have "sort_desc f (x # y # ys) = m # insert_desc f x rest"
      using False by (simp only: step ih insert_desc.simps if_False)
    also have "insert_desc f x rest = sort_desc f (x # remove1 m (y # ys))"
      by (simp only: rest_def sort_desc.simps)
    also have "x # remove1 m (y # ys) = remove1 m (x # y # ys)"
      using ne by simp
    finally show ?thesis by (simp only: fm)
  qed
qed

lemma nlargest_by_take: "nlargest_by n f xs = take n (sort_desc f xs)"
proof (induction n arbitrary: xs)
  case 0
  show ?case by simp
next
  case (Suc n)
  show ?case
  proof (cases xs)
    case Nil
    then show ?thesis by simp
  next
    case (Cons x xs')
    have "nlargest_by (Suc n) f (x # xs') =
          first_max f x xs' # take n (sort_desc f (remove1 (first_max f x xs') (x # xs')))"
      by (simp add: Suc.IH Let_def)
    also have "\<dots> = take (Suc n) (sort_desc f (x # xs'))"
      by (subst sort_desc_first_max) simp
    finally show ?thesis using Cons by simp
  qed
qed

lemma length_sort_desc: "length (sort_desc f xs) = length xs"
  by (metis mset_sort_desc size_mset)

lemma sorted_wrt_take: "sorted_wrt R xs \<Longrightarrow> sorted_wrt R (take n xs)"
  by (metis append_take_drop_id sorted_wrt_append)

text \<open>
  C5. The top performers are the rows of the frame sorted by the average in descending
  order, of which the first \<open>n\<close> are taken: \<open>nlargest\<close> is \<open>sorted_head\<close>, and the code
  calls it with \<open>n = 3\<close>. The result is in descending order of the average and has
  \<open>n\<close> rows, or all rows when there are fewer. The sort is a permutation of the rows, and
  rows with the same average keep the order they have in the input.
\<close>

theorem nlargest_sorted_head:
  "nlargest n col df = sorted_head n col df \<and>
   top_avg df =
     map (\<lambda>r. (map_of r ''Candidate'', map_of r ''Average'')) (sorted_head 3 ''Average'' df) \<and>
   sorted_wrt (\<lambda>a b. number_at col b \<le> number_at col a) (nlargest n col df) \<and>
   length (nlargest n col df) = min n (length (filter (\<lambda>r. number_at col r \<noteq> None) df)) \<and>
   mset (sort_desc (number_at col) (filter (\<lambda>r. number_at col r \<noteq> None) df)) =
     mset (filter (\<lambda>r. number_at col r \<noteq> None) df) \<and>
   (\<forall>k. filter (\<lambda>r. number_at col r = k)
          (sort_desc (number_at col) (filter (\<lambda>r. number_at col r \<noteq> None) df)) =
        filter (\<lambda>r. number_at col r = k) (filter (\<lambda>r. number_at col r \<noteq> None) df))"
proof -
  let ?rows = "filter (\<lambda>r. number_at col r \<noteq> None) df"
  have eq: "nlargest n col df = sorted_head n col df" for n col
    by (simp add: nlargest_def sorted_head_def nlargest_by_take)
  have top: "top_avg df =
     map (\<lambda>r. (map_of r ''Candidate'', map_of r ''Average'')) (sorted_head 3 ''Average'' df)"
    by (simp add: top_avg_def eq)
  have srt: "sorted_wrt (\<lambda>a b. number_at col b \<le> number_at col a) (nlargest n col df)"
    unfolding eq sorted_head_def by (rule sorted_wrt_take) (rule sorted_sort_desc)
  have len: "length (nlargest n col df) = min n (length ?rows)"
    unfolding eq sorted_head_def by (simp add: length_sort_desc min.commute)
  have ms: "mset (sort_desc (number_at col) ?rows) = mset ?rows"
    by (rule mset_sort_desc)
  have st: "\<forall>k. filter (\<lambda>r. number_at col r = k) (sort_desc (number_at col) ?rows) =
        filter (\<lambda>r. number_at col r = k) ?rows"
    by (simp only: filter_sort_desc) simp
  from eq [of n col] top srt len ms st show ?thesis by blast
qed

theorem nlargest_sorted_head_witness:
  "nlargest 2 ''Average'' [alice, bob, carol] = [alice, bob] \<and>
   top_avg [carol, alice, bob] =
     [(Some (Text (Some ''Alice'')), Some (Num 9)), (Some (Text (Some ''Bob'')), Some (Num 9)),
      (Some (Text (Some ''Carol'')), Some (Num 5))]"
  using nlargest_sorted_head [of 2 "''Average''" "[alice, bob, carol]"]
    nlargest_sorted_head [of 3 "''Average''" "[carol, alice, bob]"]
  by (simp add: sorted_head_def number_at_def alice_def bob_def carol_def)

text \<open>
  Every row that quick analytics builds has a number under \<^verbatim>\<open>'Average'\<close>, so no row of
  its frame is left out by \<open>nlargest\<close>.
\<close>

lemma number_at_update: "number_at col (AList.update col (Num a) r) = Some a"
  by (simp add: number_at_def AList.update_conv')

lemma analytics_row_average:
  "number_at ''Average'' (analytics_row cand scs) =
     Some (sum_list (map snd scs) / real (length scs))"
  by (simp add: analytics_row_def number_at_update)

lemma all_data_has_average:
  "filter (\<lambda>r. number_at ''Average'' r \<noteq> None) (all_data d cands) = all_data d cands"
  by (auto simp: all_data_def filter_id_conv Let_def analytics_row_average)

lemma top_avg_example:
  "top_avg (all_data example_db (list_candidates example_db (Some ''s1''))) =
     [(Some (Text (Some ''Jane'')), Some (Num 5))]"
  by (simp add: top_avg_def nlargest_def all_data_def list_candidates_def example_db_def
      jane_def sam_def get_scores_for_candidate_def analytics_row_def number_at_def
      eval_nat_numeral)

subsection \<open>The average of a candidate\<close>

lemma update_fresh: "k \<notin> fst ` set al \<Longrightarrow> AList.update k v al = al @ [(k, v)]"
  by (induction al) auto

lemma fold_update_distinct:
  "distinct (map fst scs) \<Longrightarrow> fst ` set scs \<inter> fst ` set acc = {} \<Longrightarrow>
   fold (\<lambda>s dict. AList.update (fst s) (snd s) dict) scs acc = acc @ scs"
proof (induction scs arbitrary: acc)
  case Nil
  show ?case by simp
next
  case (Cons s scs)
  from Cons.prems have fresh: "fst s \<notin> fst ` set acc" by auto
  from Cons.prems have "distinct (map fst scs)"
    and "fst ` set scs \<inter> fst ` set (acc @ [s]) = {}" by auto
  from Cons.IH [OF this] fresh show ?case by (simp add: update_fresh)
qed

lemma score_dict_distinct: "distinct (map fst scs) \<Longrightarrow> score_dict scs = scs"
  using fold_update_distinct [of scs "[]"] by (simp add: score_dict_def)

text \<open>
  Without a metric that occurs twice, the two places that compute the average of a
  candidate agree. Quick analytics computes the simple arithmetic mean over all pairs of
  the candidate and leaves out a candidate without scores; the candidate list shows "Not
  evaluated" for the empty list, and for a list with distinct metric names the simple
  arithmetic mean.
\<close>

lemma averages_without_duplicates:
  "map (number_at ''Average'') (all_data d [cand]) =
     (if get_scores_for_candidate d (Some (c_id cand)) = [] then []
      else [Some (sum_list (map snd (get_scores_for_candidate d (Some (c_id cand)))) /
                  real (length (get_scores_for_candidate d (Some (c_id cand)))))]) \<and>
   show_average [] = St_info ''Not evaluated'' \<and>
   (scs \<noteq> [] \<longrightarrow> distinct (map fst scs) \<longrightarrow>
      show_average scs =
        St_metric ''Average Score'' (sum_list (map snd scs) / real (length scs)))"
  by (simp add: show_average_def all_data_def analytics_row_def number_at_update
      score_dict_distinct Let_def)

lemma averages_example:
  "map (number_at ''Average'') (all_data example_db [jane]) = [Some 5] \<and>
   map (number_at ''Average'') (all_data example_db [sam]) = [] \<and>
   show_average [(''X'', 4), (''Y'', 6)] = St_metric ''Average Score'' 5"
  using averages_without_duplicates [of example_db jane "[(''X'', 4), (''Y'', 6)]"]
    averages_without_duplicates [of example_db sam "[]"]
  by (simp add: example_db_def get_scores_for_candidate_def jane_def sam_def)

text \<open>The store with the duplicate metric is reached by two calls of \<^verbatim>\<open>add_score\<close>.\<close>

lemma duplicate_db_reached:
  "add_scores example_db ''c2'' [(''A'', 3), (''A'', 9)] = Inr duplicate_db"
  by (simp add: add_score_Some duplicate_db_def example_db_def)

text \<open>
  C6. The claim is that the average of a candidate is the simple arithmetic mean over the
  list of its \<open>(metric, value)\<close> pairs. For Sam in the store with the duplicate metric the
  list is \<open>A = 3\<close>, \<open>A = 9\<close>, with the mean 6. Quick analytics computes 6. The candidate list
  does not: \<open>score_dict\<close> keeps one value for the metric \<open>A\<close>, the last, and the average
  that is shown is 9.
\<close>

theorem show_average_duplicate_metric:
  "get_scores_for_candidate duplicate_db (Some (c_id sam)) = [(''A'', 3), (''A'', 9)] \<and>
   sum_list (map snd [(''A'', 3::real), (''A'', 9)]) / real (length [(''A'', 3::real), (''A'', 9)]) = 6 \<and>
   map (number_at ''Average'') (all_data duplicate_db [sam]) = [Some 6] \<and>
   show_average (get_scores_for_candidate duplicate_db (Some (c_id sam))) =
     St_metric ''Average Score'' 9"
proof -
  have g: "get_scores_for_candidate duplicate_db (Some (c_id sam)) = [(''A'', 3), (''A'', 9)]"
    by (simp add: get_scores_for_candidate_def duplicate_db_def example_db_def sam_def)
  have a: "map (number_at ''Average'') (all_data duplicate_db [sam]) = [Some 6]"
    by (simp add: all_data_def g analytics_row_average)
  have s: "show_average [(''A'', 3), (''A'', 9)] = St_metric ''Average Score'' 9"
    by (simp add: show_average_def score_dict_def)
  from g a s show ?thesis by simp
qed

end
